theory Spec2Isabelle
  imports Complex_Main
begin

section \<open>SauceBot: dispense gating and serving statistics\<close>

text \<open>
  A shallow embedding of \<^verbatim>\<open>Saucebot.py\<close>: the module-level dict \<^verbatim>\<open>state\<close>, the
  statistics file, \<^verbatim>\<open>load_stats\<close>, \<^verbatim>\<open>save_stats\<close>, \<^verbatim>\<open>dispense\<close> and the
  button handlers of \<^verbatim>\<open>SauceBotUI\<close>. The window layout, the QR popup and the exit
  dialog do not touch the counters or the pumps and are left out.

  Conventions of the model:
  \<^item> Python floats are exact rationals: no rounding, no NaN, no infinity.
  \<^item> Every call of \<^verbatim>\<open>time.time()\<close> is an argument of the function that makes it, in
    program order, so a handler that reads the clock twice takes two readings.
  \<^item> The text layer of \<^verbatim>\<open>json.dumps\<close> and \<^verbatim>\<open>json.loads\<close> is not modelled: a file is
    represented by what \<^verbatim>\<open>json.loads\<close> makes of its text, and writing a file always
    succeeds.
  \<^item> An exception is a value; the mutations made before it was raised stay, as they do
    in Python.
\<close>

subsection \<open>Python values\<close>

datatype pyval =
    PNone
  | PBool bool
  | PInt int
  | PFloat rat
  | PStr string
  | PList "pyval list"
  | PDict "(string \<times> pyval) list"

datatype exn = KeyError | TypeError | ValueError

type_synonym dict = "string \<rightharpoonup> pyval"

text \<open>The numeric value of an operand of float arithmetic; \<open>None\<close> where Python raises
  \<^verbatim>\<open>TypeError\<close>. A \<^verbatim>\<open>bool\<close> is an \<^verbatim>\<open>int\<close> in Python.\<close>

fun py_num :: "pyval \<Rightarrow> rat option" where
  "py_num (PInt n) = Some (of_int n)"
| "py_num (PFloat x) = Some x"
| "py_num (PBool b) = Some (if b then 1 else 0)"
| "py_num _ = None"

text \<open>\<^verbatim>\<open>v + 1\<close>, as \<^verbatim>\<open>state[k] += 1\<close> computes it.\<close>

fun py_add1 :: "pyval \<Rightarrow> exn + pyval" where
  "py_add1 (PInt n) = Inr (PInt (n + 1))"
| "py_add1 (PFloat x) = Inr (PFloat (x + 1))"
| "py_add1 (PBool b) = Inr (PInt ((if b then 1 else 0) + 1))"
| "py_add1 _ = Inl TypeError"

text \<open>The builtins \<^verbatim>\<open>min(a, b)\<close> and \<^verbatim>\<open>max(a, b)\<close>: the first argument is kept unless
  the second is strictly smaller (larger).\<close>

definition py_min :: "rat \<Rightarrow> rat \<Rightarrow> rat" where
  "py_min a b = (if b < a then b else a)"

definition py_max :: "rat \<Rightarrow> rat \<Rightarrow> rat" where
  "py_max a b = (if b > a then b else a)"

subsection \<open>Configuration\<close>

definition DEFAULT_DISPENSE_TIME_SECONDS :: rat where
  "DEFAULT_DISPENSE_TIME_SECONDS = 1.5"

definition MIN_INTERVAL_SECONDS :: rat where
  "MIN_INTERVAL_SECONDS = 1.5"

definition MAX_DISPENSE_SECONDS :: rat where
  "MAX_DISPENSE_SECONDS = 6.0"

subsection \<open>Pumps, worker threads, the statistics file\<close>

datatype pump = pump_tomato | pump_mustard

text \<open>What a worker thread does while it holds \<^verbatim>\<open>dispense_lock\<close>.\<close>

datatype pump_op = On pump | Sleep rat | Off pump

type_synonym thread = "pump_op list"

text \<open>The content of \<^verbatim>\<open>sauce_stats.json\<close>, by the outcome of reading and parsing it:
  \<open>Malformed\<close> is any content on which \<^verbatim>\<open>read_text\<close> or \<^verbatim>\<open>json.loads\<close> raises,
  \<open>Json j\<close> any content that parses to the value \<open>j\<close>.\<close>

datatype file_content = Malformed | Json pyval

text \<open>The process: the global dict \<^verbatim>\<open>state\<close>, the statistics file (\<open>None\<close> when it
  does not exist) and the worker threads started so far, oldest first.\<close>

record world =
  state :: dict
  stats_file :: "file_content option"
  threads :: "thread list"

text \<open>The dict \<^verbatim>\<open>state\<close> with its four keys and well-typed values: three \<^verbatim>\<open>int\<close>
  counters and a \<^verbatim>\<open>float\<close> time. The literal that initialises \<^verbatim>\<open>state\<close> is
  \<open>Counters 0 0 0 0\<close>.\<close>

definition Counters :: "int \<Rightarrow> int \<Rightarrow> int \<Rightarrow> rat \<Rightarrow> dict" where
  "Counters s t m l =
     [''served'' \<mapsto> PInt s, ''tomato_served'' \<mapsto> PInt t,
      ''mustard_served'' \<mapsto> PInt m, ''last_dispense_time'' \<mapsto> PFloat l]"

text \<open>The module's initial \<^verbatim>\<open>state\<close>, in a process that has started no thread.\<close>

definition startup :: "file_content option \<Rightarrow> world" where
  "startup f = \<lparr>state = Counters 0 0 0 0, stats_file = f, threads = []\<rparr>"

subsection \<open>\<^verbatim>\<open>state.update(j)\<close>\<close>

text \<open>The items Python's iteration of a value yields; \<open>None\<close> for a value that is not
  iterable. A dict yields its keys, each once, a string its characters.\<close>

fun keys_of :: "(string \<times> pyval) list \<Rightarrow> string list" where
  "keys_of [] = []"
| "keys_of ((k, v) # kvs) = k # filter (\<lambda>x. x \<noteq> k) (keys_of kvs)"

fun py_iter :: "pyval \<Rightarrow> pyval list option" where
  "py_iter (PList xs) = Some xs"
| "py_iter (PStr s) = Some (map (\<lambda>c. PStr [c]) s)"
| "py_iter (PDict kvs) = Some (map PStr (keys_of kvs))"
| "py_iter _ = None"

text \<open>\<^verbatim>\<open>d[k] = v\<close> for a key of any JSON type. A list or a dict is unhashable. The model
  keeps the string keys only: no code of the program reads another key.\<close>

fun setitem :: "dict \<Rightarrow> pyval \<Rightarrow> pyval \<Rightarrow> exn + dict" where
  "setitem d (PStr k) v = Inr (d(k \<mapsto> v))"
| "setitem d (PList xs) v = Inl TypeError"
| "setitem d (PDict kvs) v = Inl TypeError"
| "setitem d _ v = Inr d"

text \<open>\<^verbatim>\<open>dict.update\<close> with an argument that is not a dict: every item must be an
  iterable of length two, a key and a value. The items before a bad one are stored.\<close>

fun merge_from_seq2 :: "dict \<Rightarrow> pyval list \<Rightarrow> exn option \<times> dict" where
  "merge_from_seq2 d [] = (None, d)"
| "merge_from_seq2 d (item # items) =
     (case py_iter item of
        None \<Rightarrow> (Some TypeError, d)
      | Some [k, v] \<Rightarrow>
          (case setitem d k v of
             Inl e \<Rightarrow> (Some e, d)
           | Inr d' \<Rightarrow> merge_from_seq2 d' items)
      | Some _ \<Rightarrow> (Some ValueError, d))"

definition dict_update :: "dict \<Rightarrow> pyval \<Rightarrow> exn option \<times> dict" where
  "dict_update d j =
     (case j of
        PDict kvs \<Rightarrow> (None, fold (\<lambda>(k, v) d'. d'(k \<mapsto> v)) kvs d)
      | _ \<Rightarrow>
          (case py_iter j of
             None \<Rightarrow> (Some TypeError, d)
           | Some items \<Rightarrow> merge_from_seq2 d items))"

subsection \<open>Load and save\<close>

definition json_loads :: "file_content \<Rightarrow> exn + pyval" where
  "json_loads c = (case c of Malformed \<Rightarrow> Inl ValueError | Json j \<Rightarrow> Inr j)"

text \<open>\<^verbatim>\<open>load_stats\<close>: the body of the \<^verbatim>\<open>try\<close> is the parse and the update; the handler
  \<^verbatim>\<open>except Exception: pass\<close> drops the exception of either.\<close>

definition load_stats :: "world \<Rightarrow> exn option \<times> world" where
  "load_stats w =
     (case stats_file w of
        None \<Rightarrow> (None, w)
      | Some c \<Rightarrow>
          (case json_loads c of
             Inl e \<Rightarrow> (None, w)
           | Inr j \<Rightarrow>
               (case dict_update (state w) j of
                  (None, d) \<Rightarrow> (None, w\<lparr>state := d\<rparr>)
                | (Some e, d) \<Rightarrow> (None, w\<lparr>state := d\<rparr>))))"

definition getitem :: "dict \<Rightarrow> string \<Rightarrow> exn + pyval" where
  "getitem d k = (case d k of None \<Rightarrow> Inl KeyError | Some v \<Rightarrow> Inr v)"

text \<open>The dict literal that \<^verbatim>\<open>save_stats\<close> hands to \<^verbatim>\<open>json.dumps\<close>.\<close>

definition stats_json :: "dict \<Rightarrow> exn + pyval" where
  "stats_json d =
     (case getitem d ''served'' of Inl e \<Rightarrow> Inl e | Inr a \<Rightarrow>
      (case getitem d ''tomato_served'' of Inl e \<Rightarrow> Inl e | Inr b \<Rightarrow>
      (case getitem d ''mustard_served'' of Inl e \<Rightarrow> Inl e | Inr c \<Rightarrow>
      (case getitem d ''last_dispense_time'' of Inl e \<Rightarrow> Inl e | Inr t \<Rightarrow>
         Inr (PDict [(''served'', a), (''tomato_served'', b),
                     (''mustard_served'', c), (''last_dispense_time'', t)])))))"

definition save_stats :: "world \<Rightarrow> exn option \<times> world" where
  "save_stats w =
     (case stats_json (state w) of
        Inl e \<Rightarrow> (Some e, w)
      | Inr j \<Rightarrow> (None, w\<lparr>stats_file := Some (Json j)\<rparr>))"

subsection \<open>Dispensing\<close>

definition worker :: "pump \<Rightarrow> rat \<Rightarrow> thread" where
  "worker pump_device seconds = [On pump_device, Sleep seconds, Off pump_device]"

text \<open>\<^verbatim>\<open>dispense\<close> clamps, starts the thread and returns without waiting for it.\<close>

definition dispense :: "pump \<Rightarrow> rat \<Rightarrow> world \<Rightarrow> world" where
  "dispense pump_device seconds w =
     (let seconds' = py_max 0.05 (py_min seconds MAX_DISPENSE_SECONDS)
      in w\<lparr>threads := threads w @ [worker pump_device seconds']\<rparr>)"

subsection \<open>The handlers\<close>

definition too_soon :: "rat \<Rightarrow> world \<Rightarrow> exn + bool" where
  "too_soon now w =
     (case getitem (state w) ''last_dispense_time'' of
        Inl e \<Rightarrow> Inl e
      | Inr v \<Rightarrow>
          (case py_num v of
             None \<Rightarrow> Inl TypeError
           | Some t \<Rightarrow> Inr (if now - t < MIN_INTERVAL_SECONDS then True else False)))"

text \<open>\<^verbatim>\<open>state[k] += 1\<close>.\<close>

definition incr :: "string \<Rightarrow> dict \<Rightarrow> exn + dict" where
  "incr k d =
     (case getitem d k of
        Inl e \<Rightarrow> Inl e
      | Inr v \<Rightarrow> (case py_add1 v of Inl e \<Rightarrow> Inl e | Inr v' \<Rightarrow> Inr (d(k \<mapsto> v'))))"

definition record_served :: "string \<Rightarrow> rat \<Rightarrow> world \<Rightarrow> exn option \<times> world" where
  "record_served which now w =
     (case incr ''served'' (state w) of
        Inl e \<Rightarrow> (Some e, w)
      | Inr d1 \<Rightarrow>
          (case (if which = ''tomato'' then incr ''tomato_served'' d1
                 else if which = ''mustard'' then incr ''mustard_served'' d1
                 else Inr d1) of
             Inl e \<Rightarrow> (Some e, w\<lparr>state := d1\<rparr>)
           | Inr d2 \<Rightarrow>
               save_stats (w\<lparr>state := d2(''last_dispense_time'' \<mapsto> PFloat now)\<rparr>)))"

text \<open>\<open>now\<close> is the clock reading of \<^verbatim>\<open>too_soon\<close>, \<open>now'\<close> that of \<^verbatim>\<open>record_served\<close>.
  The parameter \<^verbatim>\<open>from_physical\<close> is never read.\<close>

definition on_tomato :: "bool \<Rightarrow> rat \<Rightarrow> rat \<Rightarrow> world \<Rightarrow> exn option \<times> world" where
  "on_tomato from_physical now now' w =
     (case too_soon now w of
        Inl e \<Rightarrow> (Some e, w)
      | Inr True \<Rightarrow> (None, w)
      | Inr False \<Rightarrow>
          record_served ''tomato'' now'
            (dispense pump_tomato DEFAULT_DISPENSE_TIME_SECONDS w))"

definition on_mustard :: "bool \<Rightarrow> rat \<Rightarrow> rat \<Rightarrow> world \<Rightarrow> exn option \<times> world" where
  "on_mustard from_physical now now' w =
     (case too_soon now w of
        Inl e \<Rightarrow> (Some e, w)
      | Inr True \<Rightarrow> (None, w)
      | Inr False \<Rightarrow>
          record_served ''mustard'' now'
            (dispense pump_mustard DEFAULT_DISPENSE_TIME_SECONDS w))"

text \<open>\<^verbatim>\<open>on_both\<close> reads the clock three times: in \<^verbatim>\<open>too_soon\<close> and in each of the two
  calls of \<^verbatim>\<open>record_served\<close>.\<close>

definition on_both :: "rat \<Rightarrow> rat \<Rightarrow> rat \<Rightarrow> world \<Rightarrow> exn option \<times> world" where
  "on_both now now' now'' w =
     (case too_soon now w of
        Inl e \<Rightarrow> (Some e, w)
      | Inr True \<Rightarrow> (None, w)
      | Inr False \<Rightarrow>
          (case record_served ''tomato'' now'
                  (dispense pump_mustard DEFAULT_DISPENSE_TIME_SECONDS
                    (dispense pump_tomato DEFAULT_DISPENSE_TIME_SECONDS w)) of
             (Some e, w') \<Rightarrow> (Some e, w')
           | (None, w') \<Rightarrow> record_served ''mustard'' now'' w'))"

subsection \<open>Requests and runs\<close>

text \<open>A request is a press of one of the three buttons, with the readings of the clock
  its handler will make. The physical buttons call the same handlers.\<close>

datatype request =
    Tomato bool rat rat
  | Mustard bool rat rat
  | Both rat rat rat

fun handle :: "request \<Rightarrow> world \<Rightarrow> exn option \<times> world" where
  "handle (Tomato p now now') w = on_tomato p now now' w"
| "handle (Mustard p now now') w = on_mustard p now now' w"
| "handle (Both now now' now'') w = on_both now now' now'' w"

text \<open>The event loop calls the handlers one after the other; an exception of a handler
  is reported by the toolkit and the loop goes on.\<close>

fun run :: "request list \<Rightarrow> world \<Rightarrow> world" where
  "run [] w = w"
| "run (r # rs) w = run rs (snd (handle r w))"

subsection \<open>Observations on a request\<close>

text \<open>The clock readings of a request, in the order its handler makes them; the first is
  the one \<^verbatim>\<open>too_soon\<close> compares.\<close>

fun readings :: "request \<Rightarrow> rat list" where
  "readings (Tomato p now now') = [now, now']"
| "readings (Mustard p now now') = [now, now']"
| "readings (Both now now' now'') = [now, now', now'']"

fun check_time :: "request \<Rightarrow> rat" where
  "check_time (Tomato p now now') = now"
| "check_time (Mustard p now now') = now"
| "check_time (Both now now' now'') = now"

text \<open>The clock does not step back while the handler of the request runs. A request made
  at one instant, all its readings equal, is such a request.\<close>

definition clock_ok :: "request \<Rightarrow> bool" where
  "clock_ok r = sorted (readings r)"

text \<open>A request made at the single time \<open>now\<close>, as the specification writes it.\<close>

datatype target = TomatoT | MustardT | BothT

fun request_at :: "target \<Rightarrow> rat \<Rightarrow> request" where
  "request_at TomatoT now = Tomato False now now"
| "request_at MustardT now = Mustard False now now"
| "request_at BothT now = Both now now now"

text \<open>The handler got past its throttle check.\<close>

definition accepted :: "request \<Rightarrow> world \<Rightarrow> bool" where
  "accepted r w = (too_soon (check_time r) w = Inr False)"

definition last_dispense_time :: "world \<Rightarrow> rat option" where
  "last_dispense_time w =
     (case state w ''last_dispense_time'' of None \<Rightarrow> None | Some v \<Rightarrow> py_num v)"

text \<open>The value of \<^verbatim>\<open>state["last_dispense_time"]\<close> that each accepted request of a run
  leaves behind, in the order of the requests.\<close>

fun stamps :: "request list \<Rightarrow> world \<Rightarrow> rat option list" where
  "stamps [] w = []"
| "stamps (r # rs) w =
     (if accepted r w then [last_dispense_time (snd (handle r w))] else [])
       @ stamps rs (snd (handle r w))"

text \<open>The sub-targets a request records and the pumps it starts, from the button it
  stands for.\<close>

fun pumps_of :: "request \<Rightarrow> pump list" where
  "pumps_of (Tomato p now now') = [pump_tomato]"
| "pumps_of (Mustard p now now') = [pump_mustard]"
| "pumps_of (Both now now' now'') = [pump_tomato, pump_mustard]"

text \<open>The document \<^verbatim>\<open>save_stats\<close> writes when the four counters are well typed.\<close>

definition stats_doc :: "int \<Rightarrow> int \<Rightarrow> int \<Rightarrow> rat \<Rightarrow> pyval" where
  "stats_doc s t m l =
     PDict [(''served'', PInt s), (''tomato_served'', PInt t),
            (''mustard_served'', PInt m), (''last_dispense_time'', PFloat l)]"

text \<open>The JSON values that are neither an object nor an array.\<close>

fun is_scalar :: "pyval \<Rightarrow> bool" where
  "is_scalar (PList xs) = False"
| "is_scalar (PDict kvs) = False"
| "is_scalar _ = True"

text \<open>The entries that \<^verbatim>\<open>state.update\<close> stores under string keys when it is handed an
  array: those of the leading items that are pairs with a hashable key, up to the first
  item on which the update raises.\<close>

fun stored :: "pyval list \<Rightarrow> (string \<times> pyval) list" where
  "stored [] = []"
| "stored (item # items) =
     (case py_iter item of
        Some [PStr k, v] \<Rightarrow> (k, v) # stored items
      | Some [PList xs, v] \<Rightarrow> []
      | Some [PDict kvs, v] \<Rightarrow> []
      | Some [k, v] \<Rightarrow> stored items
      | _ \<Rightarrow> [])"

section \<open>Well-typed counters\<close>

text \<open>From the initial \<^verbatim>\<open>state\<close> the handlers only ever reach dicts of the form
  \<open>Counters s t m l\<close>; on these no handler raises, and each has a closed form.\<close>

lemma Counters_apply [simp]:
  "Counters s t m l ''served'' = Some (PInt s)"
  "Counters s t m l ''tomato_served'' = Some (PInt t)"
  "Counters s t m l ''mustard_served'' = Some (PInt m)"
  "Counters s t m l ''last_dispense_time'' = Some (PFloat l)"
  by (simp_all add: Counters_def)

lemma Counters_upd:
  "(Counters s t m l)(''served'' \<mapsto> PInt s') = Counters s' t m l"
  "(Counters s t m l)(''tomato_served'' \<mapsto> PInt t') = Counters s t' m l"
  "(Counters s t m l)(''mustard_served'' \<mapsto> PInt m') = Counters s t m' l"
  "(Counters s t m l)(''last_dispense_time'' \<mapsto> PFloat l') = Counters s t m l'"
  by (auto simp add: Counters_def fun_eq_iff)

lemma Counters_inject:
  "Counters s t m l = Counters s' t' m' l' \<longleftrightarrow> s = s' \<and> t = t' \<and> m = m' \<and> l = l'"
proof
  assume eq: "Counters s t m l = Counters s' t' m' l'"
  have "Counters s t m l ''served'' = Counters s' t' m' l' ''served''"
    and "Counters s t m l ''tomato_served'' = Counters s' t' m' l' ''tomato_served''"
    and "Counters s t m l ''mustard_served'' = Counters s' t' m' l' ''mustard_served''"
    and "Counters s t m l ''last_dispense_time'' = Counters s' t' m' l' ''last_dispense_time''"
    by (simp_all only: eq)
  then show "s = s' \<and> t = t' \<and> m = m' \<and> l = l'" by simp
qed simp

lemma dispense_default:
  "dispense p DEFAULT_DISPENSE_TIME_SECONDS w =
     w\<lparr>threads := threads w @ [worker p DEFAULT_DISPENSE_TIME_SECONDS]\<rparr>"
  by (simp add: dispense_def py_max_def py_min_def DEFAULT_DISPENSE_TIME_SECONDS_def
      MAX_DISPENSE_SECONDS_def)

lemma worker_default:
  "worker p DEFAULT_DISPENSE_TIME_SECONDS = [On p, Sleep 1.5, Off p]"
  by (simp add: worker_def DEFAULT_DISPENSE_TIME_SECONDS_def)

lemma too_soon_Counters:
  "state w = Counters s t m l \<Longrightarrow> too_soon now w = Inr (now - l < MIN_INTERVAL_SECONDS)"
  by (simp add: too_soon_def getitem_def)

lemma stats_json_Counters: "stats_json (Counters s t m l) = Inr (stats_doc s t m l)"
  by (simp add: stats_json_def getitem_def stats_doc_def)

lemma record_served_tomato:
  "state w = Counters s t m l \<Longrightarrow>
   record_served ''tomato'' now w =
     (None, w\<lparr>state := Counters (s + 1) (t + 1) m now,
              stats_file := Some (Json (stats_doc (s + 1) (t + 1) m now))\<rparr>)"
  by (simp add: record_served_def incr_def getitem_def Counters_upd save_stats_def stats_json_Counters)

lemma record_served_mustard:
  "state w = Counters s t m l \<Longrightarrow>
   record_served ''mustard'' now w =
     (None, w\<lparr>state := Counters (s + 1) t (m + 1) now,
              stats_file := Some (Json (stats_doc (s + 1) t (m + 1) now))\<rparr>)"
  by (simp add: record_served_def incr_def getitem_def Counters_upd save_stats_def stats_json_Counters)

lemma on_tomato_Counters:
  "state w = Counters s t m l \<Longrightarrow>
   on_tomato p now now' w =
     (if now - l < MIN_INTERVAL_SECONDS then (None, w)
      else (None, w\<lparr>state := Counters (s + 1) (t + 1) m now',
                     stats_file := Some (Json (stats_doc (s + 1) (t + 1) m now')),
                     threads := threads w @ [worker pump_tomato DEFAULT_DISPENSE_TIME_SECONDS]\<rparr>))"
  by (simp add: on_tomato_def too_soon_Counters dispense_default record_served_tomato)

lemma on_mustard_Counters:
  "state w = Counters s t m l \<Longrightarrow>
   on_mustard p now now' w =
     (if now - l < MIN_INTERVAL_SECONDS then (None, w)
      else (None, w\<lparr>state := Counters (s + 1) t (m + 1) now',
                     stats_file := Some (Json (stats_doc (s + 1) t (m + 1) now')),
                     threads := threads w @ [worker pump_mustard DEFAULT_DISPENSE_TIME_SECONDS]\<rparr>))"
  by (simp add: on_mustard_def too_soon_Counters dispense_default record_served_mustard)

lemma on_both_Counters:
  "state w = Counters s t m l \<Longrightarrow>
   on_both now now' now'' w =
     (if now - l < MIN_INTERVAL_SECONDS then (None, w)
      else (None, w\<lparr>state := Counters (s + 2) (t + 1) (m + 1) now'',
                     stats_file := Some (Json (stats_doc (s + 2) (t + 1) (m + 1) now'')),
                     threads := threads w @ [worker pump_tomato DEFAULT_DISPENSE_TIME_SECONDS, worker pump_mustard DEFAULT_DISPENSE_TIME_SECONDS]\<rparr>))"
  by (simp add: on_both_def too_soon_Counters dispense_default record_served_tomato
      record_served_mustard add.commute)

lemma handle_Counters:
  assumes "state w = Counters s t m l"
  shows "handle r w =
     (if check_time r - l < MIN_INTERVAL_SECONDS then (None, w)
      else (None, w\<lparr>state := Counters (s + int (length (pumps_of r)))
                                (t + int (count_list (pumps_of r) pump_tomato))
                                (m + int (count_list (pumps_of r) pump_mustard))
                                (last (readings r)),
                     stats_file := Some (Json (stats_doc (s + int (length (pumps_of r)))
                                (t + int (count_list (pumps_of r) pump_tomato))
                                (m + int (count_list (pumps_of r) pump_mustard))
                                (last (readings r)))),
                     threads := threads w @
                       map (\<lambda>p. worker p DEFAULT_DISPENSE_TIME_SECONDS) (pumps_of r)\<rparr>))"
  using assms
  by (cases r) (simp_all add: on_tomato_Counters on_mustard_Counters on_both_Counters)

lemma accepted_Counters:
  "state w = Counters s t m l \<Longrightarrow> accepted r w = (\<not> check_time r - l < MIN_INTERVAL_SECONDS)"
  by (simp add: accepted_def too_soon_Counters)

lemma last_dispense_time_Counters:
  "state w = Counters s t m l \<Longrightarrow> last_dispense_time w = Some l"
  by (simp add: last_dispense_time_def)

lemma clock_ok_last: "clock_ok r \<Longrightarrow> check_time r \<le> last (readings r)"
  by (cases r) (auto simp add: clock_ok_def)

lemma MIN_INTERVAL_pos: "0 \<le> MIN_INTERVAL_SECONDS"
  by (simp add: MIN_INTERVAL_SECONDS_def)

lemma handle_state:
  assumes "state w = Counters s t m l"
  shows "state (snd (handle r w)) =
     (if check_time r - l < MIN_INTERVAL_SECONDS then Counters s t m l
      else Counters (s + int (length (pumps_of r)))
                    (t + int (count_list (pumps_of r) pump_tomato))
                    (m + int (count_list (pumps_of r) pump_mustard))
                    (last (readings r)))"
  using assms by (simp add: handle_Counters)

lemma pumps_of_split:
  "int (length (pumps_of r)) =
     int (count_list (pumps_of r) pump_tomato) + int (count_list (pumps_of r) pump_mustard)"
  by (cases r) simp_all

lemma run_additive:
  "state w = Counters (t + m) t m l \<Longrightarrow>
   \<exists>t' m' l'. state (run rs w) = Counters (t' + m') t' m' l'"
proof (induction rs arbitrary: w t m l)
  case Nil
  then have "state (run [] w) = Counters (t + m) t m l" by simp
  then show ?case by (intro exI)
next
  case (Cons r rs)
  show ?case
  proof (cases "check_time r - l < MIN_INTERVAL_SECONDS")
    case True
    with Cons.prems have "state (snd (handle r w)) = Counters (t + m) t m l"
      by (simp add: handle_state)
    from Cons.IH [OF this] show ?thesis by simp
  next
    case False
    let ?a = "int (count_list (pumps_of r) pump_tomato)"
    let ?b = "int (count_list (pumps_of r) pump_mustard)"
    have e: "t + m + int (length (pumps_of r)) = (t + ?a) + (m + ?b)"
      by (simp add: pumps_of_split)
    from False Cons.prems
    have "state (snd (handle r w)) =
        Counters (t + m + int (length (pumps_of r))) (t + ?a) (m + ?b) (last (readings r))"
      by (simp add: handle_state)
    then have "state (snd (handle r w)) =
        Counters ((t + ?a) + (m + ?b)) (t + ?a) (m + ?b) (last (readings r))"
      by (simp only: e)
    from Cons.IH [OF this] show ?thesis by simp
  qed
qed

section \<open>Counter additivity\<close>

text \<open>
  Claim C1. Starting from the zeroed counters, after any sequence of requests, accepted
  or rejected, \<^verbatim>\<open>served\<close> equals \<^verbatim>\<open>tomato_served + mustard_served\<close>: the dict
  \<^verbatim>\<open>state\<close> is \<open>Counters (t + m) t m l\<close> for some \<open>t\<close>, \<open>m\<close> and \<open>l\<close>. The file at
  startup and the clock readings of the requests are arbitrary.
\<close>

theorem counter_additivity:
  "\<exists>t m l. state (run rs (startup f)) = Counters (t + m) t m l"
proof -
  have "state (startup f) = Counters (0 + 0) 0 0 0"
    by (simp add: startup_def)
  then show ?thesis by (rule run_additive)
qed

section \<open>The throttle\<close>

lemma stamps_gaps:
  "state w = Counters s t m l \<Longrightarrow> list_all clock_ok rs \<Longrightarrow>
   \<exists>ts. stamps rs w = map Some ts
     \<and> sorted_wrt (\<lambda>a b. a + MIN_INTERVAL_SECONDS \<le> b) ts
     \<and> list_all (\<lambda>x. l + MIN_INTERVAL_SECONDS \<le> x) ts"
proof (induction rs arbitrary: w s t m l)
  case Nil
  then show ?case by simp
next
  case (Cons r rs)
  from Cons.prems have ok: "clock_ok r" and oks: "list_all clock_ok rs" by simp_all
  show ?case
  proof (cases "check_time r - l < MIN_INTERVAL_SECONDS")
    case True
    with Cons.prems have st: "state (snd (handle r w)) = Counters s t m l"
      by (simp add: handle_state)
    from True Cons.prems have na: "\<not> accepted r w" by (simp add: accepted_Counters)
    from Cons.IH [OF st oks] na show ?thesis by simp
  next
    case False
    let ?l' = "last (readings r)"
    from False Cons.prems obtain s' t' m' where
      st: "state (snd (handle r w)) = Counters s' t' m' ?l'"
      by (simp add: handle_state)
    from False Cons.prems have acc: "accepted r w" by (simp add: accepted_Counters)
    from clock_ok_last [OF ok] False have ge: "l + MIN_INTERVAL_SECONDS \<le> ?l'" by simp
    from Cons.IH [OF st oks] obtain ts where
      ts: "stamps rs (snd (handle r w)) = map Some ts"
        "sorted_wrt (\<lambda>a b. a + MIN_INTERVAL_SECONDS \<le> b) ts"
        "list_all (\<lambda>x. ?l' + MIN_INTERVAL_SECONDS \<le> x) ts"
      by blast
    have 1: "stamps (r # rs) w = map Some (?l' # ts)"
      using acc ts(1) st by (simp add: last_dispense_time_Counters)
    have 2: "sorted_wrt (\<lambda>a b. a + MIN_INTERVAL_SECONDS \<le> b) (?l' # ts)"
      using ts(2,3) by (simp add: list_all_iff)
    have 3: "list_all (\<lambda>x. l + MIN_INTERVAL_SECONDS \<le> x) (?l' # ts)"
      using ts(3) ge MIN_INTERVAL_pos by (auto simp add: list_all_iff)
    from 1 2 3 show ?thesis by blast
  qed
qed

lemma handle_noop_iff:
  assumes "state w = Counters s t m l"
  shows "(handle r w = (None, w)) = (check_time r - l < MIN_INTERVAL_SECONDS)"
proof (cases "check_time r - l < MIN_INTERVAL_SECONDS")
  case True
  with assms show ?thesis by (simp add: handle_Counters)
next
  case False
  have "pumps_of r \<noteq> []" by (cases r) simp_all
  then have "threads (snd (handle r w)) \<noteq> threads w"
    using False assms by (simp add: handle_Counters)
  then have "handle r w \<noteq> (None, w)" by auto
  with False show ?thesis by simp
qed

text \<open>
  Claim C2. With well-typed counters whose \<^verbatim>\<open>last_dispense_time\<close> is \<open>l\<close>, a request
  whose throttle check reads the clock at \<open>now\<close> is rejected, that is, its handler
  returns with the process unchanged, if and only if \<open>now - l < MIN_INTERVAL_SECONDS\<close>.
  Consequently, in every run of requests during each of which the clock does not step
  back, the values of \<^verbatim>\<open>last_dispense_time\<close> left by the accepted requests are pairwise
  at least \<open>MIN_INTERVAL_SECONDS\<close> apart, each later one above each earlier one.
\<close>

theorem throttle:
  assumes "state w = Counters s t m l" and "list_all clock_ok rs"
  shows "accepted r w = (\<not> check_time r - l < MIN_INTERVAL_SECONDS)
       \<and> (handle r w = (None, w)) = (check_time r - l < MIN_INTERVAL_SECONDS)
       \<and> (\<exists>ts. stamps rs w = map Some ts
            \<and> sorted_wrt (\<lambda>a b. a + MIN_INTERVAL_SECONDS \<le> b) ts)"
proof -
  from stamps_gaps [OF assms] obtain ts where
    "stamps rs w = map Some ts" "sorted_wrt (\<lambda>a b. a + MIN_INTERVAL_SECONDS \<le> b) ts"
    by blast
  then have "\<exists>ts. stamps rs w = map Some ts
            \<and> sorted_wrt (\<lambda>a b. a + MIN_INTERVAL_SECONDS \<le> b) ts" by blast
  with accepted_Counters [OF assms(1)] handle_noop_iff [OF assms(1)] show ?thesis by blast
qed

text \<open>A run at startup: a tomato request at 10 s, a mustard request half a second later,
  from the physical button, and a request for both at 12 s whose second record reads the
  clock a little later. At startup itself the mustard request would be accepted.\<close>

theorem throttle_witness:
  "state (startup None) = Counters 0 0 0 0
   \<and> list_all clock_ok [Tomato False 10 10, Mustard True 10.5 10.5, Both 12 12 12.1]
   \<and> accepted (Mustard True 10.5 10.5) (startup None)
   \<and> handle (Mustard True 10.5 10.5) (startup None) \<noteq> (None, startup None)
   \<and> (\<exists>ts. stamps [Tomato False 10 10, Mustard True 10.5 10.5, Both 12 12 12.1] (startup None)
              = map Some ts
            \<and> sorted_wrt (\<lambda>a b. a + MIN_INTERVAL_SECONDS \<le> b) ts)"
proof -
  have h1: "state (startup None) = Counters 0 0 0 0"
    by (simp add: startup_def)
  have h2: "list_all clock_ok [Tomato False 10 10, Mustard True 10.5 10.5, Both 12 12 12.1]"
    by (simp add: clock_ok_def)
  have h3: "\<not> check_time (Mustard True 10.5 10.5) - 0 < MIN_INTERVAL_SECONDS"
    by (simp add: MIN_INTERVAL_SECONDS_def)
  from throttle [OF h1 h2, of "Mustard True 10.5 10.5"] h1 h2 h3 show ?thesis
    by simp
qed

section \<open>Loading the statistics file\<close>

lemma fold_setitem:
  assumes "\<And>k v d. f (k, v) d = d(k \<mapsto> v)"
  shows "fold f kvs d = d ++ map_of (rev kvs)"
proof (induction kvs arbitrary: d)
  case Nil
  show ?case by simp
next
  case (Cons kv kvs)
  obtain k v where kv: "kv = (k, v)" by (cases kv)
  have "fold f (kv # kvs) d = fold f kvs (d(k \<mapsto> v))"
    by (simp add: kv assms)
  also have "\<dots> = d(k \<mapsto> v) ++ map_of (rev kvs)"
    by (rule Cons.IH)
  also have "\<dots> = d ++ map_of (rev (kv # kvs))"
    by (rule ext) (simp add: kv map_add_def split: option.splits)
  finally show ?case .
qed

lemma fold_update_map_of:
  "fold (\<lambda>(k, v) d'. d'(k \<mapsto> v)) kvs d = d ++ map_of (rev kvs)"
  by (rule fold_setitem) simp

lemma load_stats_no_raise: "fst (load_stats w) = None"
  by (simp add: load_stats_def split: option.splits sum.splits prod.splits)

lemma load_stats_missing: "stats_file w = None \<Longrightarrow> load_stats w = (None, w)"
  by (simp add: load_stats_def)

lemma load_stats_malformed: "stats_file w = Some Malformed \<Longrightarrow> load_stats w = (None, w)"
  by (simp add: load_stats_def json_loads_def)

lemma load_stats_object:
  "stats_file w = Some (Json (PDict kvs)) \<Longrightarrow>
   load_stats w = (None, w\<lparr>state := state w ++ map_of (rev kvs)\<rparr>)"
  by (simp add: load_stats_def json_loads_def dict_update_def fold_update_map_of)

lemma map_add_upd_front:
  "d(k \<mapsto> v) ++ map_of (rev kvs) = d ++ map_of (rev ((k, v) # kvs))"
  by (rule ext) (simp add: map_add_def split: option.splits)

lemma merge_from_seq2_stored:
  "snd (merge_from_seq2 d xs) = d ++ map_of (rev (stored xs))"
proof (induction xs arbitrary: d)
  case Nil
  show ?case by simp
next
  case (Cons x xs)
  show ?case
  proof (cases "py_iter x")
    case None
    then show ?thesis by simp
  next
    case (Some ys)
    show ?thesis
    proof (cases ys)
      case Nil
      with Some show ?thesis by simp
    next
      case (Cons k ys')
      note c1 = Cons
      show ?thesis
      proof (cases ys')
        case Nil
        with Some c1 show ?thesis by (cases k) simp_all
      next
        case (Cons v ys'')
        note c2 = Cons
        show ?thesis
        proof (cases ys'')
          case Nil
          with Some c1 c2 have it: "py_iter x = Some [k, v]" by simp
          show ?thesis
          proof (cases k)
            case (PStr s)
            with it have "snd (merge_from_seq2 d (x # xs)) = snd (merge_from_seq2 (d(s \<mapsto> v)) xs)"
              by (simp add: fun_upd_def)
            also have "\<dots> = d(s \<mapsto> v) ++ map_of (rev (stored xs))"
              by (rule Cons.IH)
            also have "\<dots> = d ++ map_of (rev ((s, v) # stored xs))"
              by (rule map_add_upd_front)
            also from it PStr have "(s, v) # stored xs = stored (x # xs)"
              by simp
            finally show ?thesis .
          qed (use it in \<open>simp_all add: Cons.IH\<close>)
        next
          case (Cons z zs)
          with Some c1 c2 show ?thesis by (cases k) simp_all
        qed
      qed
    qed
  qed
qed

lemma load_stats_Json:
  "stats_file w = Some (Json j) \<Longrightarrow>
   load_stats w = (None, w\<lparr>state := snd (dict_update (state w) j)\<rparr>)"
  by (cases "dict_update (state w) j")
     (simp add: load_stats_def json_loads_def split: option.splits)

lemma stored_chars: "stored (map (\<lambda>c. PStr [c]) s) = []"
  by (cases s) simp_all

lemma dict_update_scalar: "is_scalar j \<Longrightarrow> snd (dict_update d j) = d"
  by (cases j) (simp_all add: dict_update_def merge_from_seq2_stored stored_chars)

lemma dict_update_array:
  "snd (dict_update d (PList xs)) = d ++ map_of (rev (stored xs))"
  by (simp add: dict_update_def merge_from_seq2_stored)

lemma load_stats_scalar:
  "stats_file w = Some (Json j) \<Longrightarrow> is_scalar j \<Longrightarrow> load_stats w = (None, w)"
  by (simp add: load_stats_Json dict_update_scalar)

lemma load_stats_array:
  "stats_file w = Some (Json (PList xs)) \<Longrightarrow>
   load_stats w = (None, w\<lparr>state := state w ++ map_of (rev (stored xs))\<rparr>)"
  by (simp add: load_stats_Json dict_update_array)

text \<open>
  Claim C3, as the code has it. \<^verbatim>\<open>load_stats\<close> never raises. The process is left as
  it was, so that a load at startup leaves the all-zero counters, when the file is
  missing, when its content cannot be parsed, when the content parses to a JSON number,
  string, boolean or \<^verbatim>\<open>null\<close>, and when it parses to an array from which the update
  stores nothing, such as \<^verbatim>\<open>[1, 2]\<close>. When the content parses to a JSON object, its
  members are stored into \<^verbatim>\<open>state\<close> one by one, later members over earlier ones,
  whatever their names and values; when it parses to an array, so are the leading
  key and value pairs of the array. What is stored is not checked to be a counters
  record.
\<close>

theorem load_fallback:
  "fst (load_stats w) = None
   \<and> (stats_file w = None \<or> stats_file w = Some Malformed \<longrightarrow> snd (load_stats w) = w)
   \<and> (stats_file w = Some (Json j) \<and> is_scalar j \<longrightarrow> snd (load_stats w) = w)
   \<and> (stats_file w = Some (Json (PList xs)) \<longrightarrow>
        state (snd (load_stats w)) = state w ++ map_of (rev (stored xs)))
   \<and> (stats_file w = Some (Json (PList xs)) \<and> stored xs = [] \<longrightarrow> snd (load_stats w) = w)
   \<and> (stats_file w = Some (Json (PDict kvs)) \<longrightarrow>
        state (snd (load_stats w)) = state w ++ map_of (rev kvs))"
proof (intro conjI impI)
  show "fst (load_stats w) = None" by (rule load_stats_no_raise)
next
  assume "stats_file w = None \<or> stats_file w = Some Malformed"
  then show "snd (load_stats w) = w"
    by (auto simp add: load_stats_missing load_stats_malformed)
next
  assume "stats_file w = Some (Json j) \<and> is_scalar j"
  then show "snd (load_stats w) = w"
    by (simp add: load_stats_scalar)
next
  assume "stats_file w = Some (Json (PList xs))"
  then show "state (snd (load_stats w)) = state w ++ map_of (rev (stored xs))"
    by (simp add: load_stats_array)
next
  assume "stats_file w = Some (Json (PList xs)) \<and> stored xs = []"
  then show "snd (load_stats w) = w"
    by (simp add: load_stats_array)
next
  assume "stats_file w = Some (Json (PDict kvs))"
  then show "state (snd (load_stats w)) = state w ++ map_of (rev kvs)"
    by (simp add: load_stats_object)
qed

theorem load_fallback_witness:
  "fst (load_stats (startup (Some Malformed))) = None
   \<and> snd (load_stats (startup (Some Malformed))) = startup (Some Malformed)
   \<and> snd (load_stats (startup None)) = startup None
   \<and> state (snd (load_stats (startup None))) = Counters 0 0 0 0
   \<and> snd (load_stats (startup (Some (Json (PInt 5))))) = startup (Some (Json (PInt 5)))
   \<and> snd (load_stats (startup (Some (Json PNone)))) = startup (Some (Json PNone))
   \<and> snd (load_stats (startup (Some (Json (PStr ''abc''))))) = startup (Some (Json (PStr ''abc'')))
   \<and> snd (load_stats (startup (Some (Json (PList [PInt 1, PInt 2])))))
       = startup (Some (Json (PList [PInt 1, PInt 2])))
   \<and> state (snd (load_stats (startup (Some (Json (PList
          [PList [PStr ''served'', PInt 8], PInt 2])))))) ''served'' = Some (PInt 8)
   \<and> state (snd (load_stats (startup (Some (Json (PDict
          [(''served'', PInt 8), (''tomato_served'', PInt 3)]))))))
       ''served'' = Some (PInt 8)"
proof -
  let ?kvs = "[(''served'', PInt 8), (''tomato_served'', PInt 3)]"
  let ?xs = "[PList [PStr ''served'', PInt 8], PInt 2]"
  have f: "\<And>c. stats_file (startup c) = c"
    by (simp add: startup_def)
  have z: "state (startup None) = Counters 0 0 0 0"
    by (simp add: startup_def)
  from load_fallback [of "startup (Some Malformed)" PNone "[]" "[]"] f
  have 1: "fst (load_stats (startup (Some Malformed))) = None"
    and 2: "snd (load_stats (startup (Some Malformed))) = startup (Some Malformed)"
    by simp_all
  from load_fallback [of "startup None" PNone "[]" "[]"] f
  have 3: "snd (load_stats (startup None)) = startup None"
    by simp
  from load_fallback [of "startup (Some (Json (PInt 5)))" "PInt 5" "[]" "[]"] f
  have 4: "snd (load_stats (startup (Some (Json (PInt 5))))) = startup (Some (Json (PInt 5)))"
    by simp
  from load_fallback [of "startup (Some (Json PNone))" PNone "[]" "[]"] f
  have 5: "snd (load_stats (startup (Some (Json PNone)))) = startup (Some (Json PNone))"
    by simp
  from load_fallback [of "startup (Some (Json (PStr ''abc'')))" "PStr ''abc''" "[]" "[]"] f
  have 6: "snd (load_stats (startup (Some (Json (PStr ''abc''))))) =
      startup (Some (Json (PStr ''abc'')))"
    by simp
  from load_fallback [of "startup (Some (Json (PList [PInt 1, PInt 2])))" PNone
      "[PInt 1, PInt 2]" "[]"] f
  have 7: "snd (load_stats (startup (Some (Json (PList [PInt 1, PInt 2]))))) =
      startup (Some (Json (PList [PInt 1, PInt 2])))"
    by simp
  from load_fallback [of "startup (Some (Json (PList ?xs)))" PNone ?xs "[]"] f
  have 8: "state (snd (load_stats (startup (Some (Json (PList ?xs)))))) ''served''
      = Some (PInt 8)"
    by simp
  from load_fallback [of "startup (Some (Json (PDict ?kvs)))" PNone "[]" ?kvs] f
  have 9: "state (snd (load_stats (startup (Some (Json (PDict ?kvs)))))) ''served''
      = Some (PInt 8)"
    by simp
  from 1 2 3 4 5 6 7 8 9 z show ?thesis by simp
qed

text \<open>
  Claim C3 as stated fails on content that is valid JSON but not a counters record. With
  the file \<^verbatim>\<open>{"served": "many"}\<close> at startup, \<^verbatim>\<open>json.loads\<close> succeeds, the update stores
  the string under \<^verbatim>\<open>served\<close>, and the counters are not the all-zero counters.
\<close>

theorem load_merges_unvalidated:
  "state (snd (load_stats (startup (Some (Json (PDict [(''served'', PStr ''many'')])))))) ''served''
     = Some (PStr ''many'')
   \<and> state (snd (load_stats (startup (Some (Json (PDict [(''served'', PStr ''many'')]))))))
     \<noteq> Counters 0 0 0 0"
proof -
  let ?w = "snd (load_stats (startup (Some (Json (PDict [(''served'', PStr ''many'')])))))"
  have 1: "state ?w ''served'' = Some (PStr ''many'')"
    by (simp add: load_stats_object startup_def)
  have 2: "state ?w \<noteq> Counters 0 0 0 0"
  proof
    assume "state ?w = Counters 0 0 0 0"
    then have "state ?w ''served'' = Counters 0 0 0 0 ''served''" by (rule arg_cong)
    with 1 show False by simp
  qed
  from 1 2 show ?thesis by (rule conjI)
qed

section \<open>The duration clamp\<close>

lemma py_min_min: "py_min a b = min a b"
  by (simp add: py_min_def min_def)

lemma py_max_max: "py_max a b = max a b"
  by (simp add: py_max_def max_def)

text \<open>
  Claim C4. For every requested duration \<open>d\<close>, negative, zero or oversized,
  \<^verbatim>\<open>dispense\<close> starts one worker thread, whose on, sleep, off sequence sleeps for
  \<open>max 0.05 (min d MAX_DISPENSE_SECONDS)\<close> seconds, with \<open>MAX_DISPENSE_SECONDS = 6\<close>, and
  changes nothing else.
\<close>

theorem dispense_clamp:
  "dispense p d w =
     w\<lparr>threads := threads w @ [[On p, Sleep (max 0.05 (min d MAX_DISPENSE_SECONDS)), Off p]]\<rparr>
   \<and> MAX_DISPENSE_SECONDS = 6.0"
  by (simp add: dispense_def worker_def py_min_min py_max_max MAX_DISPENSE_SECONDS_def)

section \<open>Save, then load\<close>

lemma Counters_add: "Counters s' t' m' l' ++ Counters s t m l = Counters s t m l"
  by (rule ext) (simp add: Counters_def map_add_def)

lemma map_of_stats_doc:
  "map_of (rev [(''served'', PInt s), (''tomato_served'', PInt t),
                (''mustard_served'', PInt m), (''last_dispense_time'', PFloat l)])
     = Counters s t m l"
  by (rule ext) (simp add: Counters_def)

lemma save_stats_Counters:
  "state w = Counters s t m l \<Longrightarrow>
   save_stats w = (None, w\<lparr>stats_file := Some (Json (stats_doc s t m l))\<rparr>)"
  by (simp add: save_stats_def stats_json_Counters)

lemma load_stats_doc:
  "stats_file w = Some (Json (stats_doc s t m l)) \<Longrightarrow>
   load_stats w = (None, w\<lparr>state := state w ++ Counters s t m l\<rparr>)"
  by (simp only: load_stats_object stats_doc_def map_of_stats_doc)

text \<open>
  Claim C5. For well-typed counters \<open>Counters s t m l\<close>, \<^verbatim>\<open>save_stats\<close> does not raise,
  and a \<^verbatim>\<open>load_stats\<close> of the file it wrote yields the same four fields: in the same
  process, in a process that has just started, and, merged over whatever is there, in
  a process with any \<^verbatim>\<open>state\<close> \<open>d\<close>.
\<close>

theorem save_load_roundtrip:
  assumes "state w = Counters s t m l"
  shows "fst (save_stats w) = None
       \<and> state (snd (load_stats (snd (save_stats w)))) = Counters s t m l
       \<and> state (snd (load_stats (startup (stats_file (snd (save_stats w)))))) = Counters s t m l
       \<and> state (snd (load_stats \<lparr>state = d, stats_file = stats_file (snd (save_stats w)),
                                  threads = ths\<rparr>)) = d ++ Counters s t m l"
  using assms
  by (simp add: save_stats_Counters load_stats_doc startup_def Counters_add)

theorem save_load_roundtrip_witness:
  "state \<lparr>state = Counters 3 2 1 100.25, stats_file = None, threads = []\<rparr>
     = Counters 3 2 1 100.25
   \<and> fst (save_stats \<lparr>state = Counters 3 2 1 100.25, stats_file = None, threads = []\<rparr>)
     = None
   \<and> state (snd (load_stats (startup (stats_file (snd (save_stats
        \<lparr>state = Counters 3 2 1 100.25, stats_file = None, threads = []\<rparr>))))))
     = Counters 3 2 1 100.25"
proof -
  let ?w = "\<lparr>state = Counters 3 2 1 100.25, stats_file = None, threads = []\<rparr>"
  have h: "state ?w = Counters 3 2 1 100.25" by simp
  from save_load_roundtrip [OF h, of Map.empty "[]"] h show ?thesis by blast
qed

section \<open>Rejected requests\<close>

lemma too_soon_noop:
  "too_soon (check_time r) w = Inr True \<Longrightarrow> handle r w = (None, w)"
  by (cases r) (simp_all add: on_tomato_def on_mustard_def on_both_def)

lemma handle_last_mono:
  assumes "state w = Counters s t m l" and "clock_ok r"
  shows "\<exists>s' t' m' l'. state (snd (handle r w)) = Counters s' t' m' l' \<and> l \<le> l'"
proof (cases "check_time r - l < MIN_INTERVAL_SECONDS")
  case True
  with assms(1) have "state (snd (handle r w)) = Counters s t m l"
    by (simp add: handle_state)
  then show ?thesis by auto
next
  case False
  with assms(1) obtain s' t' m' where
    st: "state (snd (handle r w)) = Counters s' t' m' (last (readings r))"
    by (simp add: handle_state)
  from clock_ok_last [OF assms(2)] False MIN_INTERVAL_pos
  have "l \<le> last (readings r)" by simp
  with st show ?thesis by blast
qed

lemma run_last_mono:
  "state w = Counters s t m l \<Longrightarrow> list_all clock_ok rs \<Longrightarrow>
   \<exists>s' t' m' l'. state (run rs w) = Counters s' t' m' l' \<and> l \<le> l'"
proof (induction rs arbitrary: w s t m l)
  case Nil
  then have "state (run [] w) = Counters s t m l \<and> l \<le> l" by simp
  then show ?case by blast
next
  case (Cons r rs)
  from Cons.prems have ok: "clock_ok r" and oks: "list_all clock_ok rs" by simp_all
  from handle_last_mono [OF Cons.prems(1) ok] obtain s1 t1 m1 l1 where
    st: "state (snd (handle r w)) = Counters s1 t1 m1 l1" and le: "l \<le> l1"
    by blast
  from Cons.IH [OF st oks] obtain s' t' m' l' where
    "state (run rs (snd (handle r w))) = Counters s' t' m' l'" and "l1 \<le> l'"
    by blast
  with le have "state (run (r # rs) w) = Counters s' t' m' l' \<and> l \<le> l'" by simp
  then show ?case by blast
qed

text \<open>
  Claim C6. In every state of the process, a request whose throttle check answers
  "too soon" returns with the process as it was: the four counters, the threads started
  and the file are unchanged. With well-typed counters, an accepted request leaves in
  \<^verbatim>\<open>last_dispense_time\<close> the clock reading of its last record, and over any run of
  requests during each of which the clock does not step back, \<^verbatim>\<open>last_dispense_time\<close>
  does not decrease.
\<close>

theorem rejected_is_noop:
  "(too_soon (check_time r) w = Inr True \<longrightarrow> handle r w = (None, w))
   \<and> (state w = Counters s t m l \<and> accepted r w \<longrightarrow>
        last_dispense_time (snd (handle r w)) = Some (last (readings r)))
   \<and> (state w = Counters s t m l \<and> list_all clock_ok rs \<longrightarrow>
        (\<exists>s' t' m' l'. state (run rs w) = Counters s' t' m' l' \<and> l \<le> l'))"
proof (intro conjI impI)
  assume "too_soon (check_time r) w = Inr True"
  then show "handle r w = (None, w)" by (rule too_soon_noop)
next
  assume a: "state w = Counters s t m l \<and> accepted r w"
  then have st: "state w = Counters s t m l" and acc: "accepted r w" by simp_all
  from acc have "\<not> check_time r - l < MIN_INTERVAL_SECONDS"
    by (simp add: accepted_Counters [OF st])
  then have "state (snd (handle r w)) ''last_dispense_time'' = Some (PFloat (last (readings r)))"
    by (simp add: handle_state [OF st])
  then show "last_dispense_time (snd (handle r w)) = Some (last (readings r))"
    by (simp add: last_dispense_time_def)
next
  assume "state w = Counters s t m l \<and> list_all clock_ok rs"
  then show "\<exists>s' t' m' l'. state (run rs w) = Counters s' t' m' l' \<and> l \<le> l'"
    using run_last_mono by blast
qed

theorem rejected_is_noop_witness:
  "too_soon (check_time (Mustard False 10.5 10.5))
      \<lparr>state = Counters 1 1 0 10, stats_file = None, threads = []\<rparr> = Inr True
   \<and> handle (Mustard False 10.5 10.5)
      \<lparr>state = Counters 1 1 0 10, stats_file = None, threads = []\<rparr>
     = (None, \<lparr>state = Counters 1 1 0 10, stats_file = None, threads = []\<rparr>)
   \<and> accepted (Mustard False 12 12.5)
      \<lparr>state = Counters 1 1 0 10, stats_file = None, threads = []\<rparr>
   \<and> last_dispense_time (snd (handle (Mustard False 12 12.5)
      \<lparr>state = Counters 1 1 0 10, stats_file = None, threads = []\<rparr>)) = Some 12.5
   \<and> list_all clock_ok [Mustard False 10.5 10.5, Mustard False 12 12.5]
   \<and> (\<exists>s' t' m' l'. state (run [Mustard False 10.5 10.5, Mustard False 12 12.5]
        \<lparr>state = Counters 1 1 0 10, stats_file = None, threads = []\<rparr>)
          = Counters s' t' m' l' \<and> 10 \<le> l')"
proof -
  let ?w = "\<lparr>state = Counters 1 1 0 10, stats_file = None, threads = []\<rparr>"
  have st: "state ?w = Counters 1 1 0 10" by simp
  have h1: "too_soon (check_time (Mustard False 10.5 10.5)) ?w = Inr True"
    by (simp add: too_soon_Counters [OF st] MIN_INTERVAL_SECONDS_def)
  have h2: "accepted (Mustard False 12 12.5) ?w"
    by (simp add: accepted_Counters [OF st] MIN_INTERVAL_SECONDS_def)
  have h3: "list_all clock_ok [Mustard False 10.5 10.5, Mustard False 12 12.5]"
    by (simp add: clock_ok_def)
  from rejected_is_noop [of "Mustard False 10.5 10.5" ?w 1 1 0 10
      "[Mustard False 10.5 10.5, Mustard False 12 12.5]"] h1 st h3
  have 1: "handle (Mustard False 10.5 10.5) ?w = (None, ?w)"
    and 2: "\<exists>s' t' m' l'. state (run [Mustard False 10.5 10.5, Mustard False 12 12.5] ?w)
          = Counters s' t' m' l' \<and> 10 \<le> l'"
    by blast+
  from rejected_is_noop [of "Mustard False 12 12.5" ?w 1 1 0 10 "[]"] h2 st
  have 3: "last_dispense_time (snd (handle (Mustard False 12 12.5) ?w)) = Some 12.5"
    by simp
  from h1 1 h2 3 h3 2 show ?thesis by blast
qed

section \<open>Requests for both sauces\<close>

text \<open>
  Claim C7. With well-typed counters, \<^verbatim>\<open>on_both\<close> decides once, by the one comparison
  of its first clock reading with \<^verbatim>\<open>last_dispense_time\<close>: when that is too soon, nothing
  happens; otherwise two worker threads are started, one that switches the tomato pump
  on, sleeps 1.5 s and switches it off, and one that does the same on the mustard pump,
  and both sub-targets are recorded and saved: the counters rise by 2, 1 and 1 and the
  file holds them. The result does not depend on how close the two records are to each
  other or to the check, so the second pump is not gated against the record of the
  first.
\<close>

theorem both_gated_once:
  assumes "state w = Counters s t m l"
  shows "on_both now now' now'' w =
     (if now - l < MIN_INTERVAL_SECONDS then (None, w)
      else (None, w\<lparr>state := Counters (s + 2) (t + 1) (m + 1) now'',
                     stats_file := Some (Json (PDict
                       [(''served'', PInt (s + 2)), (''tomato_served'', PInt (t + 1)),
                        (''mustard_served'', PInt (m + 1)),
                        (''last_dispense_time'', PFloat now'')])),
                     threads := threads w @
                       [[On pump_tomato, Sleep 1.5, Off pump_tomato],
                        [On pump_mustard, Sleep 1.5, Off pump_mustard]]\<rparr>))"
  using on_both_Counters [OF assms, of now now' now'']
  by (simp add: stats_doc_def worker_default)

text \<open>All three readings at the same instant: the mustard record follows the tomato
  record by no time at all, and both pumps are started.\<close>

theorem both_gated_once_witness:
  "state (startup None) = Counters 0 0 0 0
   \<and> on_both 10 10 10 (startup None) =
       (None, \<lparr>state = Counters 2 1 1 10,
                stats_file = Some (Json (PDict
                  [(''served'', PInt 2), (''tomato_served'', PInt 1),
                   (''mustard_served'', PInt 1), (''last_dispense_time'', PFloat 10)])),
                threads = [[On pump_tomato, Sleep 1.5, Off pump_tomato],
                           [On pump_mustard, Sleep 1.5, Off pump_mustard]]\<rparr>)"
proof -
  have h: "state (startup None) = Counters 0 0 0 0"
    by (simp add: startup_def)
  from both_gated_once [OF h, of 10 10 10] h show ?thesis
    by (simp add: MIN_INTERVAL_SECONDS_def startup_def)
qed

text \<open>
  Claim C10. With well-typed counters, an accepted request for both sauces raises
  \<^verbatim>\<open>served\<close> by exactly 2, \<^verbatim>\<open>tomato_served\<close> by exactly 1 and \<^verbatim>\<open>mustard_served\<close> by
  exactly 1, and leaves the reading of the second record in \<^verbatim>\<open>last_dispense_time\<close>.
\<close>

theorem both_counts:
  assumes "state w = Counters s t m l" and "accepted (Both now now' now'') w"
  shows "state (snd (handle (Both now now' now'') w)) = Counters (s + 2) (t + 1) (m + 1) now''"
proof -
  from assms(2) accepted_Counters [OF assms(1), of "Both now now' now''"]
  have "\<not> check_time (Both now now' now'') - l < MIN_INTERVAL_SECONDS"
    by blast
  with handle_state [OF assms(1), of "Both now now' now''"] show ?thesis
    by (simp del: handle.simps)
qed

theorem both_counts_witness:
  "state \<lparr>state = Counters 5 3 2 100, stats_file = None, threads = []\<rparr> = Counters 5 3 2 100
   \<and> accepted (Both 102 102 102.5)
        \<lparr>state = Counters 5 3 2 100, stats_file = None, threads = []\<rparr>
   \<and> state (snd (handle (Both 102 102 102.5)
        \<lparr>state = Counters 5 3 2 100, stats_file = None, threads = []\<rparr>))
     = Counters 7 4 3 102.5"
proof -
  let ?w = "\<lparr>state = Counters 5 3 2 100, stats_file = None, threads = []\<rparr>"
  have h1: "state ?w = Counters 5 3 2 100" by simp
  have h2: "accepted (Both 102 102 102.5) ?w"
    by (simp add: accepted_Counters [OF h1] MIN_INTERVAL_SECONDS_def)
  from both_counts [OF h1 h2] h1 h2 show ?thesis
    by (simp del: handle.simps)
qed

section \<open>Recording before the handler returns\<close>

text \<open>
  Claim C8. With well-typed counters, a request whose throttle check is not too soon is
  accepted, and when its handler returns it has raised no exception, the counters of
  \<^verbatim>\<open>state\<close> are incremented, one \<^verbatim>\<open>served\<close> and one sub-counter per sub-target, the
  time is that of the last record, and the statistics file holds, whatever it held before,
  the document of exactly these four updated values. The worker threads of the request
  are started with their on, sleep, off sequences still to run: the handler has not
  waited for them.
\<close>

theorem record_before_return:
  assumes "state w = Counters s t m l" and "\<not> now - l < MIN_INTERVAL_SECONDS"
  shows "on_tomato p now now' w =
       (None, w\<lparr>state := Counters (s + 1) (t + 1) m now',
                 stats_file := Some (Json (PDict
                   [(''served'', PInt (s + 1)), (''tomato_served'', PInt (t + 1)),
                    (''mustard_served'', PInt m), (''last_dispense_time'', PFloat now')])),
                 threads := threads w @ [[On pump_tomato, Sleep 1.5, Off pump_tomato]]\<rparr>)
     \<and> on_mustard p now now' w =
       (None, w\<lparr>state := Counters (s + 1) t (m + 1) now',
                 stats_file := Some (Json (PDict
                   [(''served'', PInt (s + 1)), (''tomato_served'', PInt t),
                    (''mustard_served'', PInt (m + 1)), (''last_dispense_time'', PFloat now')])),
                 threads := threads w @ [[On pump_mustard, Sleep 1.5, Off pump_mustard]]\<rparr>)
     \<and> on_both now now' now'' w =
       (None, w\<lparr>state := Counters (s + 2) (t + 1) (m + 1) now'',
                 stats_file := Some (Json (PDict
                   [(''served'', PInt (s + 2)), (''tomato_served'', PInt (t + 1)),
                    (''mustard_served'', PInt (m + 1)),
                    (''last_dispense_time'', PFloat now'')])),
                 threads := threads w @
                   [[On pump_tomato, Sleep 1.5, Off pump_tomato],
                    [On pump_mustard, Sleep 1.5, Off pump_mustard]]\<rparr>)"
  using assms(2) on_tomato_Counters [OF assms(1), of p now now']
    on_mustard_Counters [OF assms(1), of p now now']
    on_both_Counters [OF assms(1), of now now' now'']
  by (simp add: stats_doc_def worker_default)

theorem record_before_return_witness:
  "state \<lparr>state = Counters 5 3 2 100, stats_file = Some Malformed, threads = []\<rparr>
     = Counters 5 3 2 100
   \<and> \<not> (102::rat) - 100 < MIN_INTERVAL_SECONDS
   \<and> on_tomato True 102 102.5
        \<lparr>state = Counters 5 3 2 100, stats_file = Some Malformed, threads = []\<rparr>
     = (None, \<lparr>state = Counters 6 4 2 102.5,
               stats_file = Some (Json (PDict
                 [(''served'', PInt 6), (''tomato_served'', PInt 4),
                  (''mustard_served'', PInt 2), (''last_dispense_time'', PFloat 102.5)])),
               threads = [[On pump_tomato, Sleep 1.5, Off pump_tomato]]\<rparr>)
   \<and> on_both 102 102.5 102.75
        \<lparr>state = Counters 5 3 2 100, stats_file = Some Malformed, threads = []\<rparr>
     = (None, \<lparr>state = Counters 7 4 3 102.75,
               stats_file = Some (Json (PDict
                 [(''served'', PInt 7), (''tomato_served'', PInt 4),
                  (''mustard_served'', PInt 3), (''last_dispense_time'', PFloat 102.75)])),
               threads = [[On pump_tomato, Sleep 1.5, Off pump_tomato],
                          [On pump_mustard, Sleep 1.5, Off pump_mustard]]\<rparr>)"
proof -
  let ?w = "\<lparr>state = Counters 5 3 2 100, stats_file = Some Malformed, threads = []\<rparr>"
  have h1: "state ?w = Counters 5 3 2 100" by simp
  have h2: "\<not> (102::rat) - 100 < MIN_INTERVAL_SECONDS"
    by (simp add: MIN_INTERVAL_SECONDS_def)
  from record_before_return [OF h1 h2, of True "102.5" "102.75"] h1 h2 show ?thesis
    by simp
qed

section \<open>The scenario\<close>

text \<open>
  Claim C9, as the code has it. At startup \<^verbatim>\<open>last_dispense_time\<close> is 0, so the scenario
  holds with its three times shifted to \<open>T\<close>, \<open>T + 0.5\<close> and \<open>T + 2\<close> for any
  \<open>T \<ge> MIN_INTERVAL_SECONDS\<close>: the tomato request is accepted, the counters are
  1, 1, 0 and the tomato pump is started for 1.5 s; the mustard request half a second
  later changes nothing; the mustard request two seconds after the first is accepted and
  the counters are 2, 1, 1.
\<close>

theorem scenario_shifted:
  assumes "MIN_INTERVAL_SECONDS \<le> T"
  shows "let w1 = snd (handle (request_at TomatoT T) (startup f));
             w2 = snd (handle (request_at MustardT (T + 0.5)) w1);
             w3 = snd (handle (request_at MustardT (T + 2.0)) w2)
         in state w1 = Counters 1 1 0 T
          \<and> threads w1 = [[On pump_tomato, Sleep 1.5, Off pump_tomato]]
          \<and> w2 = w1
          \<and> state w3 = Counters 2 1 1 (T + 2.0)
          \<and> threads w3 = [[On pump_tomato, Sleep 1.5, Off pump_tomato],
                           [On pump_mustard, Sleep 1.5, Off pump_mustard]]"
proof -
  define w1 where "w1 = snd (handle (Tomato False T T) (startup f))"
  have st0: "state (startup f) = Counters 0 0 0 0" by (simp add: startup_def)
  have th0: "threads (startup f) = []" by (simp add: startup_def)
  from assms have st1: "state w1 = Counters 1 1 0 T"
    by (simp add: w1_def handle_state [OF st0] del: handle.simps)
  from assms have th1: "threads w1 = [[On pump_tomato, Sleep 1.5, Off pump_tomato]]"
    by (simp add: w1_def handle_Counters [OF st0] th0 worker_default del: handle.simps)
  have h2: "handle (request_at MustardT (T + 0.5)) w1 = (None, w1)"
    by (simp add: handle_Counters [OF st1] MIN_INTERVAL_SECONDS_def del: handle.simps)
  have st3: "state (snd (handle (request_at MustardT (T + 2.0)) w1)) = Counters 2 1 1 (T + 2.0)"
    by (simp add: handle_state [OF st1] MIN_INTERVAL_SECONDS_def del: handle.simps)
  have th3: "threads (snd (handle (request_at MustardT (T + 2.0)) w1)) =
      [[On pump_tomato, Sleep 1.5, Off pump_tomato],
       [On pump_mustard, Sleep 1.5, Off pump_mustard]]"
    by (simp add: handle_Counters [OF st1] MIN_INTERVAL_SECONDS_def th1 worker_default
        del: handle.simps)
  from st1 th1 h2 st3 th3 show ?thesis
    by (simp add: Let_def w1_def [symmetric] del: handle.simps)
qed

theorem scenario_shifted_witness:
  "MIN_INTERVAL_SECONDS \<le> 1.5
   \<and> (let w1 = snd (handle (request_at TomatoT 1.5) (startup None));
           w2 = snd (handle (request_at MustardT (1.5 + 0.5)) w1);
           w3 = snd (handle (request_at MustardT (1.5 + 2.0)) w2)
       in state w1 = Counters 1 1 0 1.5
        \<and> threads w1 = [[On pump_tomato, Sleep 1.5, Off pump_tomato]]
        \<and> w2 = w1
        \<and> state w3 = Counters 2 1 1 (1.5 + 2.0)
        \<and> threads w3 = [[On pump_tomato, Sleep 1.5, Off pump_tomato],
                         [On pump_mustard, Sleep 1.5, Off pump_mustard]])"
proof -
  have h: "MIN_INTERVAL_SECONDS \<le> 1.5"
    by (simp add: MIN_INTERVAL_SECONDS_def)
  from h scenario_shifted [OF h, of None] show ?thesis
    by (rule conjI)
qed

text \<open>
  Claim C9 as stated fails at its first step. At startup, a tomato request at time 0 is
  too soon, since \<open>0 - 0 < 1.5\<close>: it is rejected and the process is unchanged. The run of
  the three requests at 0, 0.5 and 2.0 ends with the counters 1, 0, 1 and not 2, 1, 1.
\<close>

theorem scenario_at_zero:
  "handle (request_at TomatoT 0) (startup None) = (None, startup None)
   \<and> state (run [request_at TomatoT 0, request_at MustardT 0.5, request_at MustardT 2.0]
              (startup None)) = Counters 1 0 1 2.0"
proof -
  have st: "state (startup None) = Counters 0 0 0 0" by (simp add: startup_def)
  have 1: "handle (request_at TomatoT 0) (startup None) = (None, startup None)"
    by (simp add: handle_Counters [OF st] MIN_INTERVAL_SECONDS_def del: handle.simps)
  have 2: "handle (request_at MustardT 0.5) (startup None) = (None, startup None)"
    by (simp add: handle_Counters [OF st] MIN_INTERVAL_SECONDS_def del: handle.simps)
  have 3: "state (snd (handle (request_at MustardT 2.0) (startup None))) = Counters 1 0 1 2.0"
    by (simp add: handle_state [OF st] MIN_INTERVAL_SECONDS_def del: handle.simps)
  from 1 2 3 show ?thesis by (simp del: handle.simps)
qed

end
